theory Spec2Isabelle
  imports Main
begin

section \<open>Values of the build script\<close>

text \<open>
  The rollup helpers of \<^verbatim>\<open>rollup.config.js\<close> build plain JavaScript objects: plugin
  instances, output descriptions, configs, and arrays of plugins. Arrays and output
  objects are mutable and passed by reference, so they live in an explicit store and
  a config holds references into it. A reference is the index of its cell; allocation
  appends a cell.
\<close>

type_synonym ref = nat

datatype error = TypeError | AssertionError | ExecError

text \<open>
  A plugin instance is an object with a \<open>name\<close> and the options its factory was called
  with. The factories are third-party packages; each definition below records the call
  the script makes.
\<close>

datatype plugin_options =
    ResolveOptions
  | TypescriptOptions string string
  | ReplaceOptions bool "(string \<times> bool) list"
  | LicenseOptions string "string option"
  | TerserOptions "string list" string "string list" bool
  | SucraseOptions "string list"
  | RegexReplaceOptions "(string \<times> string) list"
  | OtherOptions nat

datatype plugin = Plugin (name: string) (factory_options: plugin_options)

datatype js_text = Text string | Thunk string

datatype treeshake_mode = TreeshakePreset string | TreeshakeFlag bool

record output_spec =
  file_name :: "string option"
  dir :: "string option"
  format :: "string option"
  global_name :: "string option"
  sourcemap :: "bool option"
  strict :: "bool option"
  esModule :: "bool option"
  banner :: "js_text option"
  intro :: "js_text option"
  outro :: "js_text option"
  footer :: "js_text option"
  preserveModules :: "bool option"
  generatedCode :: "string option"
  externalLiveBindings :: "bool option"
  interop :: "string option"

record config =
  input :: "string option"
  output_obj :: "ref option"
  plugins :: "ref option"
  treeshake :: "treeshake_mode option"
  context_this :: "string option"

text \<open>
  The config of a package build has one more key, \<open>external\<close>. That array is built by
  \<open>makeBaseNPMConfig\<close> and handed to nothing else, so the config carries its elements.
\<close>

record npm_config = config +
  external :: "string list"

text \<open>
  The dependency tables of \<^verbatim>\<open>package.json\<close>: each is absent or a table of package
  names and version ranges, in the order of its keys.
\<close>

record manifest =
  dependencies :: "(string \<times> string) list option"
  devDependencies :: "(string \<times> string) list option"
  peerDependencies :: "(string \<times> string) list option"

datatype js_value = JUndefined | JNull | JBool bool | JNumber int | JString string

record npm_options =
  entrypoint :: "string option"
  esModuleInterop :: js_value

record 'a store =
  arrays :: "'a list list"
  outputs :: "output_spec list"

definition alloc_array :: "'a store \<Rightarrow> 'a list \<Rightarrow> 'a store \<times> ref" where
  "alloc_array st xs = (st\<lparr>arrays := arrays st @ [xs]\<rparr>, length (arrays st))"

definition alloc_output :: "'a store \<Rightarrow> output_spec \<Rightarrow> 'a store \<times> ref" where
  "alloc_output st out = (st\<lparr>outputs := outputs st @ [out]\<rparr>, length (outputs st))"


section \<open>Array helpers\<close>

text \<open>
  \<open>js_index xs i\<close> is the JavaScript read \<^verbatim>\<open>xs[i]\<close> for an integer \<open>i\<close>: \<open>None\<close>
  stands for \<^verbatim>\<open>undefined\<close>, the value of a read outside the array.
\<close>

definition js_index :: "'a list \<Rightarrow> int \<Rightarrow> 'a option" where
  "js_index xs i = (if 0 \<le> i \<and> i < int (length xs) then Some (xs ! nat i) else None)"

text \<open>
  \<open>splice xs start items\<close> is \<^verbatim>\<open>xs.splice(start, 0, ...items)\<close>: a negative start
  counts from the end and is clamped at 0, a start beyond the length is clamped at the
  length.
\<close>

definition splice :: "'a list \<Rightarrow> int \<Rightarrow> 'a list \<Rightarrow> 'a list" where
  "splice xs start items =
     (let len = int (length xs);
          actualStart = (if start < 0 then max (len + start) 0 else min start len)
      in take (nat actualStart) xs @ items @ drop (nat actualStart) xs)"

text \<open>\<^verbatim>\<open>const getLastElement = array => array[array.length - 1]\<close>\<close>

definition getLastElement :: "'a list \<Rightarrow> 'a option" where
  "getLastElement array = js_index array (int (length array) - 1)"

text \<open>
  \<^verbatim>\<open>insertAt(arr, index, ...insertees)\<close>: copy \<open>arr\<close> into a new array, compute the
  destination index, splice the insertees into the copy, return the copy.
\<close>

definition insertAt :: "'a store \<Rightarrow> ref \<Rightarrow> int \<Rightarrow> 'a list \<Rightarrow> 'a store \<times> ref" where
  "insertAt st arr index insertees =
     (let (st1, newArr) = alloc_array st (arrays st ! arr);
          destinationIndex =
            (if index \<ge> 0 then index else int (length (arrays st1 ! arr)) + 1 + index);
          st2 = st1\<lparr>arrays :=
                  (arrays st1)[newArr := splice (arrays st1 ! newArr) destinationIndex insertees]\<rparr>
      in (st2, newArr))"

text \<open>The array a call of \<open>insertAt\<close> returns, read in the store the call leaves.\<close>

definition insertAt_result :: "'a store \<Rightarrow> ref \<Rightarrow> int \<Rightarrow> 'a list \<Rightarrow> 'a list" where
  "insertAt_result st arr index insertees =
     arrays (fst (insertAt st arr index insertees)) ! snd (insertAt st arr index insertees)"



section \<open>Strings\<close>

text \<open>
  A template literal prints an absent value as \<^verbatim>\<open>undefined\<close>. \<open>toLowerCase\<close> and
  \<open>trim\<close> are the string methods of the same names, on ASCII text.
\<close>

definition template :: "string option \<Rightarrow> string" where
  "template v = (case v of None \<Rightarrow> ''undefined'' | Some s \<Rightarrow> s)"

definition toLowerCase :: "string \<Rightarrow> string" where
  "toLowerCase s =
     map (\<lambda>c. if 65 \<le> (of_char c :: nat) \<and> (of_char c :: nat) \<le> 90
              then char_of (of_char c + 32 :: nat) else c) s"

definition isWhiteSpace :: "char \<Rightarrow> bool" where
  "isWhiteSpace c = ((of_char c :: nat) \<in> {9, 10, 11, 12, 13, 32})"

definition trim :: "string \<Rightarrow> string" where
  "trim s = rev (dropWhile isWhiteSpace (rev (dropWhile isWhiteSpace s)))"


section \<open>Plugins\<close>

text \<open>
  The plugin factories imported by the script. Each returns a plugin object carrying the
  name its package gives it; the script itself relies on one of these names only, that of
  \<^verbatim>\<open>rollup-plugin-license\<close>. Of the options of the TypeScript plugin the tsconfig
  file and the compiler target are kept, the rest being the same constant in every call;
  of those of the license plugin, the banner content and the title. \<open>OtherOptions\<close> stands
  for the options of a plugin built elsewhere.
\<close>

definition resolve :: plugin where
  "resolve = Plugin ''node-resolve'' ResolveOptions"

definition typescript :: "string \<Rightarrow> string \<Rightarrow> plugin" where
  "typescript tsconfig target = Plugin ''rpt2'' (TypescriptOptions tsconfig target)"

definition replace :: "bool \<Rightarrow> (string \<times> bool) list \<Rightarrow> plugin" where
  "replace preventAssignment vals = Plugin ''replace'' (ReplaceOptions preventAssignment vals)"

definition license :: "string \<Rightarrow> string option \<Rightarrow> plugin" where
  "license content title = Plugin ''rollup-plugin-license'' (LicenseOptions content title)"

definition terser :: "string list \<Rightarrow> string \<Rightarrow> string list \<Rightarrow> bool \<Rightarrow> plugin" where
  "terser reserved regex propsReserved comments =
     Plugin ''terser'' (TerserOptions reserved regex propsReserved comments)"

definition sucrase :: "string list \<Rightarrow> plugin" where
  "sucrase transforms = Plugin ''sucrase'' (SucraseOptions transforms)"

definition regexReplace :: "(string \<times> string) list \<Rightarrow> plugin" where
  "regexReplace patterns = Plugin ''re'' (RegexReplaceOptions patterns)"

definition nodeResolvePlugin :: plugin where
  "nodeResolvePlugin = resolve"

text \<open>
  \<open>makeLicensePlugin\<close> runs \<^verbatim>\<open>git rev-parse --short HEAD\<close> first; \<open>git\<close> is the outcome
  of that command, an error when it fails.
\<close>

definition makeLicensePlugin :: "error + string \<Rightarrow> string option \<Rightarrow> error + plugin" where
  "makeLicensePlugin git title =
     (case git of
        Inl e \<Rightarrow> Inl e
      | Inr out \<Rightarrow>
          (let commitHash = trim out
           in Inr (license
                (''/*! <%= data.title %> <%= pkg.version %> ('' @ commitHash @
                 '') | https://github.com/getsentry/sentry-javascript */'')
                title)))"

definition makeIsDebugBuildPlugin :: "bool \<Rightarrow> plugin" where
  "makeIsDebugBuildPlugin includeDebugging =
     replace True [(''__SENTRY_DEBUG__'', includeDebugging)]"

definition terserPlugin :: plugin where
  "terserPlugin =
     terser [''captureException'', ''captureMessage'', ''sentryWrapped'']
       ''^_[^_]'' [''_experiments''] False"


section \<open>Merging configs\<close>

definition empty_output :: output_spec where
  "empty_output =
     \<lparr>file_name = None, dir = None, format = None, global_name = None, sourcemap = None,
      strict = None, esModule = None, banner = None, intro = None, outro = None,
      footer = None, preserveModules = None, generatedCode = None,
      externalLiveBindings = None, interop = None\<rparr>"

definition empty_config :: config where
  "empty_config =
     \<lparr>input = None, output_obj = None, plugins = None, treeshake = None, context_this = None\<rparr>"

definition merge_field :: "'a option \<Rightarrow> 'a option \<Rightarrow> 'a option" where
  "merge_field b ov = (case ov of Some v \<Rightarrow> Some v | None \<Rightarrow> b)"

definition mergeOutput :: "output_spec \<Rightarrow> output_spec \<Rightarrow> output_spec" where
  "mergeOutput b ov =
     \<lparr>file_name = merge_field (file_name b) (file_name ov),
      dir = merge_field (dir b) (dir ov),
      format = merge_field (format b) (format ov),
      global_name = merge_field (global_name b) (global_name ov),
      sourcemap = merge_field (sourcemap b) (sourcemap ov),
      strict = merge_field (strict b) (strict ov),
      esModule = merge_field (esModule b) (esModule ov),
      banner = merge_field (banner b) (banner ov),
      intro = merge_field (intro b) (intro ov),
      outro = merge_field (outro b) (outro ov),
      footer = merge_field (footer b) (footer ov),
      preserveModules = merge_field (preserveModules b) (preserveModules ov),
      generatedCode = merge_field (generatedCode b) (generatedCode ov),
      externalLiveBindings = merge_field (externalLiveBindings b) (externalLiveBindings ov),
      interop = merge_field (interop b) (interop ov)\<rparr>"

type_synonym 'a arrayMerge = "'a store \<Rightarrow> ref \<Rightarrow> ref \<Rightarrow> 'a store \<times> ref"

text \<open>The default array strategy: a new array, the first array followed by the second.\<close>

definition defaultArrayMerge :: "'a arrayMerge" where
  "defaultArrayMerge st first second =
     alloc_array st (arrays st ! first @ arrays st ! second)"

text \<open>
  The strategy \<open>makeBundleConfigVariants\<close> passes:
  \<^verbatim>\<open>arrayMerge: (first, second) => second\<close>.
\<close>

definition overwriteArrayMerge :: "'a arrayMerge" where
  "overwriteArrayMerge st first second = (st, second)"

text \<open>
  Modelled from the spec: the \<^verbatim>\<open>deepmerge\<close> package the script imports as
  \<open>deepMerge\<close> is not part of the sources. Following the spec's DeepMerger: for a
  scalar field the override wins; a nested mapping (the \<open>output\<close> object) is merged
  recursively; an array field (the \<open>plugins\<close> array) present on both sides is combined by
  the array strategy. Neither input is changed and the result is a new structure: the
  merged output object is a new cell, and an array or output present on one side only
  is copied into a new cell.
\<close>

definition deepMerge :: "'a store \<Rightarrow> config \<Rightarrow> config \<Rightarrow> 'a arrayMerge \<Rightarrow> 'a store \<times> config" where
  "deepMerge st base override arrayMerge =
     (let (st1, out) =
            (case (output_obj base, output_obj override) of
               (None, None) \<Rightarrow> (st, None)
             | (Some b, None) \<Rightarrow> map_prod id Some (alloc_output st (outputs st ! b))
             | (None, Some v) \<Rightarrow> map_prod id Some (alloc_output st (outputs st ! v))
             | (Some b, Some v) \<Rightarrow>
                 map_prod id Some (alloc_output st (mergeOutput (outputs st ! b) (outputs st ! v))));
          (st2, plg) =
            (case (plugins base, plugins override) of
               (None, None) \<Rightarrow> (st1, None)
             | (Some b, None) \<Rightarrow> map_prod id Some (alloc_array st1 (arrays st1 ! b))
             | (None, Some v) \<Rightarrow> map_prod id Some (alloc_array st1 (arrays st1 ! v))
             | (Some b, Some v) \<Rightarrow> map_prod id Some (arrayMerge st1 b v))
      in (st2,
          \<lparr>input = merge_field (input base) (input override),
           output_obj = out,
           plugins = plg,
           treeshake = merge_field (treeshake base) (treeshake override),
           context_this = merge_field (context_this base) (context_this override)\<rparr>))"

text \<open>
  \<^verbatim>\<open>variants.map(variant => deepMerge(baseConfig, variant, {arrayMerge}))\<close>, left to
  right, each merge working in the store the one before left.
\<close>

fun map_deepMerge ::
  "'a store \<Rightarrow> config \<Rightarrow> config list \<Rightarrow> 'a arrayMerge \<Rightarrow> 'a store \<times> config list" where
  "map_deepMerge st baseConfig [] arrayMerge = (st, [])"
| "map_deepMerge st baseConfig (variant # variants) arrayMerge =
     (let (st1, c) = deepMerge st baseConfig variant arrayMerge;
          (st2, cs) = map_deepMerge st1 baseConfig variants arrayMerge
      in (st2, c # cs))"


section \<open>Bundle configs\<close>

text \<open>
  \<open>makeBaseBundleConfig\<close>, with the destructured options as parameters. An option that
  is not given is \<open>None\<close>; \<open>isAddOn\<close> is the truth value of the option.
\<close>

definition makeBaseBundleConfig ::
  "error + string \<Rightarrow> plugin store \<Rightarrow> string option \<Rightarrow> bool \<Rightarrow> string option \<Rightarrow>
   string option \<Rightarrow> string option \<Rightarrow> error + (plugin store \<times> config)" where
  "makeBaseBundleConfig git st input_path isAddOn jsVersion licenseTitle outputFileBase =
     (let typescriptPluginES5 = typescript ''tsconfig.esm.json'' ''es5'';
          typescriptPluginES6 = typescript ''tsconfig.esm.json'' ''es6'';
          markAsBrowserBuildPlugin = replace True [(''__SENTRY_BROWSER_BUNDLE__'', True)]
      in case makeLicensePlugin git licenseTitle of
           Inl e \<Rightarrow> Inl e
         | Inr licensePlugin \<Rightarrow>
            (let (st1, standAloneOutput) =
                   alloc_output st
                     (empty_output\<lparr>format := Some ''iife'', global_name := Some ''Sentry''\<rparr>);
                 standAloneBundleConfig =
                   empty_config\<lparr>output_obj := Some standAloneOutput,
                                context_this := Some ''window''\<rparr>;
                 (st2, addOnOutput) =
                   alloc_output st1
                     (empty_output\<lparr>format := Some ''cjs'',
                        banner := Some (Text ''(function (__window) {''),
                        intro := Some (Text ''var exports = {};''),
                        outro := Some (Thunk
                          (''\<newline>  // Add this module's exports to the global `Sentry.Integrations`'' @
                           ''\<newline>  __window.Sentry = __window.Sentry || {};'' @
                           ''\<newline>  __window.Sentry.Integrations = __window.Sentry.Integrations || {};'' @
                           ''\<newline>  for (var key in exports) {'' @
                           ''\<newline>    if (Object.prototype.hasOwnProperty.call(exports, key)) {'' @
                           ''\<newline>      __window.Sentry.Integrations[key] = exports[key];'' @
                           ''\<newline>    }'' @
                           ''\<newline>  }'')),
                        footer := Some (Text ''}(window));'')\<rparr>);
                 addOnBundleConfig = empty_config\<lparr>output_obj := Some addOnOutput\<rparr>;
                 (st3, sharedOutput) =
                   alloc_output st2
                     (empty_output\<lparr>file_name := Some (''build/'' @ template outputFileBase),
                        sourcemap := Some True, strict := Some False, esModule := Some False\<rparr>)
             in case jsVersion of
                  None \<Rightarrow> Inl TypeError
                | Some v \<Rightarrow>
                   (let (st4, sharedPlugins) =
                          alloc_array st3
                            [if toLowerCase v = ''es5'' then typescriptPluginES5
                             else typescriptPluginES6,
                             markAsBrowserBuildPlugin,
                             nodeResolvePlugin,
                             licensePlugin];
                        sharedBundleConfig =
                          \<lparr>input = input_path, output_obj = Some sharedOutput,
                           plugins = Some sharedPlugins,
                           treeshake = Some (TreeshakePreset ''smallest''),
                           context_this = None\<rparr>
                    in Inr (deepMerge st4 sharedBundleConfig
                              (if isAddOn then addOnBundleConfig else standAloneBundleConfig)
                              defaultArrayMerge))))"

text \<open>
  The assertion of \<open>makeBundleConfigVariants\<close>:
  \<^verbatim>\<open>assert(getLastElement(plugins).name === 'rollup-plugin-license', ...)\<close>.
  Reading \<open>name\<close> of \<^verbatim>\<open>undefined\<close> throws a TypeError before \<open>assert\<close> is called; a false
  comparison makes \<open>assert\<close> throw its AssertionError.
\<close>

definition assert_last_plugin :: "plugin list \<Rightarrow> error + unit" where
  "assert_last_plugin ps =
     (case getLastElement ps of
        None \<Rightarrow> Inl TypeError
      | Some p \<Rightarrow> if name p = ''rollup-plugin-license'' then Inr () else Inl AssertionError)"

definition makeBundleConfigVariants ::
  "plugin store \<Rightarrow> config \<Rightarrow> error + (plugin store \<times> config list)" where
  "makeBundleConfigVariants st baseConfig =
     (let includeDebuggingPlugin = makeIsDebugBuildPlugin True;
          stripDebuggingPlugin = makeIsDebugBuildPlugin False
      in case plugins baseConfig of
           None \<Rightarrow> Inl TypeError
         | Some plugins_ref \<Rightarrow>
            (case assert_last_plugin (arrays st ! plugins_ref) of
               Inl e \<Rightarrow> Inl e
             | Inr _ \<Rightarrow>
                (case output_obj baseConfig of
                   None \<Rightarrow> Inl TypeError
                 | Some base_output \<Rightarrow>
                    (let (st1, output1) =
                           alloc_output st
                             (empty_output\<lparr>file_name :=
                                Some (template (file_name (outputs st ! base_output)) @ ''.js'')\<rparr>);
                         (st2, plugins1) = insertAt st1 plugins_ref (- 2) [includeDebuggingPlugin];
                         (st3, output2) =
                           alloc_output st2
                             (empty_output\<lparr>file_name :=
                                Some (template (file_name (outputs st2 ! base_output)) @ ''.min.js'')\<rparr>);
                         (st4, plugins2) =
                           insertAt st3 plugins_ref (- 2) [stripDebuggingPlugin, terserPlugin];
                         (st5, output3) =
                           alloc_output st4
                             (empty_output\<lparr>file_name :=
                                Some (template (file_name (outputs st4 ! base_output)) @
                                      ''.debug.min.js'')\<rparr>);
                         (st6, plugins3) =
                           insertAt st5 plugins_ref (- 2) [includeDebuggingPlugin, terserPlugin];
                         variantSpecificConfigs =
                           [empty_config\<lparr>output_obj := Some output1, plugins := Some plugins1\<rparr>,
                            empty_config\<lparr>output_obj := Some output2, plugins := Some plugins2\<rparr>,
                            empty_config\<lparr>output_obj := Some output3, plugins := Some plugins3\<rparr>]
                     in Inr (map_deepMerge st6 baseConfig variantSpecificConfigs
                               overwriteArrayMerge)))))"



section \<open>Package configs\<close>

text \<open>Truthiness, as \<^verbatim>\<open>||\<close> and \<^verbatim>\<open>? :\<close> test it.\<close>

fun truthy :: "js_value \<Rightarrow> bool" where
  "truthy JUndefined = False"
| "truthy JNull = False"
| "truthy (JBool b) = b"
| "truthy (JNumber n) = (n \<noteq> 0)"
| "truthy (JString s) = (s \<noteq> [])"

definition truthy_string :: "string option \<Rightarrow> bool" where
  "truthy_string v = (case v of None \<Rightarrow> False | Some s \<Rightarrow> s \<noteq> [])"

text \<open>\<^verbatim>\<open>Object.keys(table || {})\<close>\<close>

definition object_keys :: "(string \<times> string) list option \<Rightarrow> string list" where
  "object_keys table = (case table of None \<Rightarrow> [] | Some kvs \<Rightarrow> map fst kvs)"

text \<open>
  \<open>makeBaseNPMConfig\<close>. \<open>builtinModules\<close> is the list Node exports under that name and
  \<open>packageDotJSON\<close> the manifest the script loads; \<open>options\<close> is \<open>None\<close> when the
  argument is omitted, and the default \<^verbatim>\<open>{}\<close> then leaves both options undefined.
\<close>

definition makeBaseNPMConfig ::
  "string list \<Rightarrow> manifest \<Rightarrow> plugin store \<Rightarrow> npm_options option \<Rightarrow> plugin store \<times> npm_config" where
  "makeBaseNPMConfig builtinModules packageDotJSON st options =
     (let opts = (case options of
                    None \<Rightarrow> \<lparr>entrypoint = None, esModuleInterop = JUndefined\<rparr>
                  | Some given \<Rightarrow> given);
          sucrasePlugin = sucrase [''typescript''];
          constToVarPlugin = regexReplace [(''const '', ''var '')];
          (st1, npm_output) =
            alloc_output st
              (empty_output\<lparr>sourcemap := Some True,
                 preserveModules := Some True,
                 generatedCode := Some ''es2015'',
                 strict := Some False,
                 externalLiveBindings := Some False,
                 interop := Some (if truthy (esModuleInterop opts) then ''auto'' else ''esModule'')\<rparr>);
          (st2, npm_plugins) =
            alloc_array st1 [nodeResolvePlugin, sucrasePlugin, constToVarPlugin]
      in (st2,
          \<lparr>input = (if truthy_string (entrypoint opts) then entrypoint opts
                    else Some ''src/index.ts''),
           output_obj = Some npm_output,
           plugins = Some npm_plugins,
           treeshake = Some (TreeshakeFlag False),
           context_this = None,
           external =
             builtinModules @
             object_keys (dependencies packageDotJSON) @
             object_keys (devDependencies packageDotJSON) @
             object_keys (peerDependencies packageDotJSON)\<rparr>))"


section \<open>Valid inputs\<close>

text \<open>
  A base config is valid in a store when its \<open>plugins\<close> and \<open>output\<close> keys refer to
  cells of the store and the plugin array passes the assertion.
\<close>

definition valid_base :: "plugin store \<Rightarrow> config \<Rightarrow> bool" where
  "valid_base st baseConfig =
     (case (plugins baseConfig, output_obj baseConfig) of
        (Some p, Some out) \<Rightarrow>
          p < length (arrays st) \<and> out < length (outputs st) \<and>
          assert_last_plugin (arrays st ! p) = Inr ()
      | _ \<Rightarrow> False)"



section \<open>Reading results\<close>

text \<open>
  What a config's keys refer to in a store: the plugin array, the output object and the
  output file name. \<open>None\<close> is \<^verbatim>\<open>undefined\<close>.
\<close>

definition plugins_of :: "'a store \<Rightarrow> 'z config_scheme \<Rightarrow> 'a list option" where
  "plugins_of st c = map_option (\<lambda>r. arrays st ! r) (plugins c)"

definition output_of :: "'a store \<Rightarrow> 'z config_scheme \<Rightarrow> output_spec option" where
  "output_of st c = map_option (\<lambda>r. outputs st ! r) (output_obj c)"

definition file_of :: "'a store \<Rightarrow> 'z config_scheme \<Rightarrow> string option" where
  "file_of st c = Option.bind (output_of st c) file_name"

text \<open>
  The plugin arrays and the output file names of the configs a call of
  \<open>makeBundleConfigVariants\<close> returns, in the order of the returned array; the plugin
  array of the config \<open>makeBaseBundleConfig\<close> returns; the \<open>interop\<close> setting of the
  config \<open>makeBaseNPMConfig\<close> returns.
\<close>

definition variant_plugins :: "error + plugin store \<times> config list \<Rightarrow> plugin list option list" where
  "variant_plugins r = (case r of Inl e \<Rightarrow> [] | Inr (st, cs) \<Rightarrow> map (plugins_of st) cs)"

definition variant_files :: "error + plugin store \<times> config list \<Rightarrow> string option list" where
  "variant_files r = (case r of Inl e \<Rightarrow> [] | Inr (st, cs) \<Rightarrow> map (file_of st) cs)"

definition config_plugins :: "error + plugin store \<times> config \<Rightarrow> plugin list option" where
  "config_plugins r = (case r of Inl e \<Rightarrow> None | Inr (st, c) \<Rightarrow> plugins_of st c)"

definition npm_interop :: "plugin store \<times> npm_config \<Rightarrow> string option" where
  "npm_interop r = Option.bind (output_of (fst r) (snd r)) interop"

text \<open>
  Mutating a config's plugin array or output object in place: the cell the config refers
  to is overwritten, every other cell is left as it is.
\<close>

definition set_plugins :: "'a store \<Rightarrow> 'z config_scheme \<Rightarrow> 'a list \<Rightarrow> 'a store" where
  "set_plugins st c xs =
     (case plugins c of None \<Rightarrow> st | Some r \<Rightarrow> st\<lparr>arrays := (arrays st)[r := xs]\<rparr>)"

definition set_output :: "'a store \<Rightarrow> 'z config_scheme \<Rightarrow> output_spec \<Rightarrow> 'a store" where
  "set_output st c out =
     (case output_obj c of None \<Rightarrow> st | Some r \<Rightarrow> st\<lparr>outputs := (outputs st)[r := out]\<rparr>)"

text \<open>The output object of a variant: the base output with the file name replaced.\<close>

definition variant_output :: "output_spec \<Rightarrow> string \<Rightarrow> output_spec" where
  "variant_output base suffix =
     mergeOutput base (empty_output\<lparr>file_name := Some (template (file_name base) @ suffix)\<rparr>)"


section \<open>An example base config\<close>

text \<open>
  A store holding one plugin array, resolve, browser marker and license banner in this
  order, and one output object; and a base config referring to both.
\<close>

definition example_mark :: plugin where
  "example_mark = replace True [(''__SENTRY_BROWSER_BUNDLE__'', True)]"

definition example_license :: plugin where
  "example_license = license ''/*! banner */'' (Some ''Sentry'')"

definition example_store :: "plugin store" where
  "example_store =
     \<lparr>arrays = [[resolve, example_mark, example_license]],
      outputs = [empty_output\<lparr>file_name := Some ''build/bundle'', format := Some ''iife''\<rparr>]\<rparr>"

definition example_base :: config where
  "example_base =
     \<lparr>input = Some ''src/index.ts'', output_obj = Some 0, plugins = Some 0,
      treeshake = Some (TreeshakePreset ''smallest''), context_this = Some ''window''\<rparr>"


section \<open>Properties of insertAt\<close>

lemma insertAt_eq:
  "arr < length (arrays st) \<Longrightarrow>
   insertAt st arr index insertees =
     (st\<lparr>arrays := arrays st @
        [splice (arrays st ! arr)
           (if index \<ge> 0 then index else int (length (arrays st ! arr)) + 1 + index) insertees]\<rparr>,
      length (arrays st))"
  by (simp add: insertAt_def alloc_array_def Let_def nth_append list_update_append)

lemma insertAt_result_eq:
  "arr < length (arrays st) \<Longrightarrow>
   insertAt_result st arr index insertees =
     splice (arrays st ! arr)
       (if index \<ge> 0 then index else int (length (arrays st ! arr)) + 1 + index) insertees"
  by (simp add: insertAt_result_def insertAt_eq)

lemma splice_nonneg:
  "0 \<le> i \<Longrightarrow> splice xs i items =
     take (min (nat i) (length xs)) xs @ items @ drop (min (nat i) (length xs)) xs"
  by (auto simp add: splice_def Let_def min_def)

text \<open>
  C5, as the code has it. For an array \<open>s\<close> held in the store, a non-negative index \<open>i\<close>
  and an item \<open>x\<close>, \<open>insertAt\<close> returns \<open>s\<close> with \<open>x\<close> put in after the first \<open>i\<close>
  elements: the result is one longer than \<open>s\<close>, the elements of \<open>s\<close> before and after
  \<open>x\<close> keep their order, and \<open>x\<close> sits at position \<open>min i (length s)\<close>, which is \<open>i\<close>
  when \<open>i\<close> is at most the length of \<open>s\<close>; a larger index appends. The call returns a
  new array: \<open>s\<close> and every other array of the store are as they were.
\<close>

theorem insertAt_nonneg:
  fixes st :: "'a store"
  assumes "arr < length (arrays st)" and "0 \<le> i"
  shows "insertAt_result st arr i [x] =
           take (nat i) (arrays st ! arr) @ [x] @ drop (nat i) (arrays st ! arr)
       \<and> length (insertAt_result st arr i [x]) = length (arrays st ! arr) + 1
       \<and> js_index (insertAt_result st arr i [x]) (min i (int (length (arrays st ! arr)))) = Some x
       \<and> arrays (fst (insertAt st arr i [x])) ! arr = arrays st ! arr
       \<and> take (length (arrays st)) (arrays (fst (insertAt st arr i [x]))) = arrays st
       \<and> snd (insertAt st arr i [x]) \<noteq> arr"
  using assms
  apply (simp add: insertAt_result_eq splice_nonneg insertAt_eq nth_append js_index_def)
  apply (auto simp add: min_def nth_append)
  done

text \<open>The same on the array \<open>abc\<close>, index 1 and item \<open>x\<close>.\<close>

theorem insertAt_nonneg_witness:
  "(0::nat) < length (arrays \<lparr>arrays = [''abc''], outputs = []\<rparr>) \<and> (0::int) \<le> 1 \<and>
   insertAt_result \<lparr>arrays = [''abc''], outputs = []\<rparr> 0 1 ''x'' = ''axbc'' \<and>
   js_index (insertAt_result \<lparr>arrays = [''abc''], outputs = []\<rparr> 0 1 ''x'') 1 = Some (CHR ''x'') \<and>
   arrays (fst (insertAt \<lparr>arrays = [''abc''], outputs = []\<rparr> 0 1 ''x'')) ! 0 = ''abc''"
  using insertAt_nonneg [of 0 "\<lparr>arrays = [''abc''], outputs = []\<rparr>" 1 "CHR ''x''"]
  by (simp add: js_index_def)

text \<open>
  C5 as written asks for \<open>x\<close> at position \<open>i\<close> for every non-negative \<open>i\<close>. With the
  array \<open>ab\<close> and index 5 the item is appended at position 2, and position 5 of the
  result is outside the array.
\<close>

theorem insertAt_nonneg_counterexample:
  "js_index (insertAt_result \<lparr>arrays = [''ab''], outputs = []\<rparr> 0 5 ''x'') 5 \<noteq> Some (CHR ''x'')"
  by (simp add: insertAt_result_eq splice_def js_index_def)

text \<open>
  C6. For an array \<open>s\<close> held in the store, a negative index \<open>i\<close> with
  \<open>- i \<le> length s + 1\<close> and an item \<open>x\<close>, the element at position \<open>length s + 1 + i\<close> of
  the array \<open>insertAt\<close> returns is \<open>x\<close>.
\<close>

theorem insertAt_negative:
  fixes st :: "'a store"
  assumes "arr < length (arrays st)" and "i < 0" and "- i \<le> int (length (arrays st ! arr)) + 1"
  shows "js_index (insertAt_result st arr i [x]) (int (length (arrays st ! arr)) + 1 + i) = Some x"
  using assms
  by (simp add: insertAt_result_eq splice_def Let_def js_index_def nth_append min_def)

text \<open>The same on the array \<open>abc\<close> and index \<open>-2\<close>: the item is at position 2.\<close>

theorem insertAt_negative_witness:
  "(0::nat) < length (arrays \<lparr>arrays = [''abc''], outputs = []\<rparr>) \<and> (- 2 :: int) < 0 \<and>
   - (- 2 :: int) \<le> int (length (arrays \<lparr>arrays = [''abc''], outputs = []\<rparr> ! 0)) + 1 \<and>
   js_index (insertAt_result \<lparr>arrays = [''abc''], outputs = []\<rparr> 0 (- 2) ''x'') 2 = Some (CHR ''x'')"
  using insertAt_negative [of 0 "\<lparr>arrays = [''abc''], outputs = []\<rparr>" "- 2" "CHR ''x''"]
  by simp

text \<open>
  C7, as the code has it. \<open>insertAt\<close> with index \<open>-1\<close> appends the item after the last
  element of \<open>s\<close>, and with index \<open>-2\<close> on a non-empty \<open>s\<close> it puts the item
  immediately before the last element of \<open>s\<close>: a negative index is the position of the
  item counted from the end of the new array.
\<close>

theorem insertAt_minus_one_two:
  fixes st :: "'a store"
  assumes "arr < length (arrays st)"
  shows "insertAt_result st arr (- 1) [x] = arrays st ! arr @ [x]
       \<and> (arrays st ! arr \<noteq> [] \<longrightarrow>
            insertAt_result st arr (- 2) [x] = butlast (arrays st ! arr) @ [x, last (arrays st ! arr)])"
proof -
  let ?s = "arrays st ! arr"
  have a: "insertAt_result st arr (- 1) [x] = ?s @ [x]"
    using assms by (simp add: insertAt_result_eq splice_def Let_def)
  have b: "insertAt_result st arr (- 2) [x] = butlast ?s @ [x, last ?s]" if ne: "?s \<noteq> []"
  proof -
    obtain bs l where s: "?s = bs @ [l]"
      using ne by (cases "?s" rule: rev_exhaust) auto
    show ?thesis
      using assms by (simp add: insertAt_result_eq splice_def Let_def s)
  qed
  from a b show ?thesis by blast
qed

text \<open>The same on the array \<open>abc\<close>.\<close>

theorem insertAt_minus_one_two_witness:
  "(0::nat) < length (arrays \<lparr>arrays = [''abc''], outputs = []\<rparr>) \<and>
   insertAt_result \<lparr>arrays = [''abc''], outputs = []\<rparr> 0 (- 1) ''x'' = ''abcx'' \<and>
   ''abc'' \<noteq> [] \<and>
   insertAt_result \<lparr>arrays = [''abc''], outputs = []\<rparr> 0 (- 2) ''x'' = ''abxc''"
  using insertAt_minus_one_two [of 0 "\<lparr>arrays = [''abc''], outputs = []\<rparr>" "CHR ''x''"]
  by simp

text \<open>
  C7 as written puts the item before the last element for index \<open>-1\<close> (giving \<open>abxc\<close>
  on \<open>abc\<close>) and before the second-to-last for index \<open>-2\<close> (giving \<open>axbc\<close>). The
  code returns neither.
\<close>

theorem insertAt_minus_counterexample:
  "insertAt_result \<lparr>arrays = [''abc''], outputs = []\<rparr> 0 (- 1) ''x'' \<noteq> ''abxc'' \<and>
   insertAt_result \<lparr>arrays = [''abc''], outputs = []\<rparr> 0 (- 2) ''x'' \<noteq> ''axbc''"
  by (simp add: insertAt_result_eq splice_def)


section \<open>The assertion on the plugin array\<close>

lemma assert_last_plugin_snoc:
  "assert_last_plugin (bs @ [l]) =
     (if name l = ''rollup-plugin-license'' then Inr () else Inl AssertionError)"
  by (simp add: assert_last_plugin_def getLastElement_def js_index_def)

lemma assert_last_plugin_Nil: "assert_last_plugin [] = Inl TypeError"
  by (simp add: assert_last_plugin_def getLastElement_def js_index_def)

text \<open>
  C4. The check of \<open>makeBundleConfigVariants\<close> fails exactly when the plugin array is
  empty or the name of its last element differs from \<^verbatim>\<open>rollup-plugin-license\<close>, and
  succeeds for every other plugin array. The spec's ConfigurationError is the error of
  this violated invariant; the script has no class of that name. Its errors are the
  AssertionError of \<open>assert\<close> exactly when a non-empty array ends in another name, and
  the TypeError of the argument of \<open>assert\<close> exactly when the array is empty.
\<close>

theorem assert_last_plugin_cases:
  "isl (assert_last_plugin ps) = (ps = [] \<or> name (last ps) \<noteq> ''rollup-plugin-license'')
 \<and> (assert_last_plugin ps = Inr ()) = (ps \<noteq> [] \<and> name (last ps) = ''rollup-plugin-license'')
 \<and> (assert_last_plugin ps = Inl AssertionError) =
       (ps \<noteq> [] \<and> name (last ps) \<noteq> ''rollup-plugin-license'')
 \<and> (assert_last_plugin ps = Inl TypeError) = (ps = [])"
  by (cases ps rule: rev_exhaust) (simp_all add: assert_last_plugin_Nil assert_last_plugin_snoc)

text \<open>The failure of the check is the failure of \<open>makeBundleConfigVariants\<close>.\<close>

lemma makeBundleConfigVariants_assert:
  "plugins baseConfig = Some p \<Longrightarrow> assert_last_plugin (arrays st ! p) = Inl e \<Longrightarrow>
   makeBundleConfigVariants st baseConfig = Inl e"
  by (simp add: makeBundleConfigVariants_def)


section \<open>The variants of a bundle config\<close>

lemma splice_minus_two_snoc:
  "splice (bs @ [l]) (int (length (bs @ [l])) + 1 + (- 2)) items = bs @ items @ [l]"
  by (simp add: splice_def Let_def)

text \<open>
  The call in full, for a base config whose keys refer to cells of the store and whose
  plugin array ends in the license plugin.
\<close>

lemma makeBundleConfigVariants_eq:
  assumes "plugins baseConfig = Some p" and "output_obj baseConfig = Some out"
    and "p < length (arrays st)" and "out < length (outputs st)"
    and "arrays st ! p = bs @ [l]" and "name l = ''rollup-plugin-license''"
  shows "makeBundleConfigVariants st baseConfig =
     Inr (\<lparr>arrays = arrays st @
              [bs @ [makeIsDebugBuildPlugin True, l],
               bs @ [makeIsDebugBuildPlugin False, terserPlugin, l],
               bs @ [makeIsDebugBuildPlugin True, terserPlugin, l]],
            outputs = outputs st @
              [empty_output\<lparr>file_name := Some (template (file_name (outputs st ! out)) @ ''.js'')\<rparr>,
               empty_output\<lparr>file_name := Some (template (file_name (outputs st ! out)) @ ''.min.js'')\<rparr>,
               empty_output\<lparr>file_name := Some (template (file_name (outputs st ! out)) @ ''.debug.min.js'')\<rparr>,
               variant_output (outputs st ! out) ''.js'',
               variant_output (outputs st ! out) ''.min.js'',
               variant_output (outputs st ! out) ''.debug.min.js'']\<rparr>,
          [baseConfig\<lparr>output_obj := Some (length (outputs st) + 3), plugins := Some (length (arrays st))\<rparr>,
           baseConfig\<lparr>output_obj := Some (length (outputs st) + 4), plugins := Some (length (arrays st) + 1)\<rparr>,
           baseConfig\<lparr>output_obj := Some (length (outputs st) + 5), plugins := Some (length (arrays st) + 2)\<rparr>])"
  using assms
  by (simp add: makeBundleConfigVariants_def assert_last_plugin_snoc alloc_output_def
      insertAt_eq splice_minus_two_snoc[simplified] Let_def deepMerge_def overwriteArrayMerge_def
      empty_config_def merge_field_def nth_append variant_output_def)

lemma valid_baseD:
  assumes "valid_base st c"
  obtains p out bs l where "plugins c = Some p" "output_obj c = Some out"
    "p < length (arrays st)" "out < length (outputs st)"
    "arrays st ! p = bs @ [l]" "name l = ''rollup-plugin-license''"
proof -
  from assms obtain p out where po: "plugins c = Some p" "output_obj c = Some out"
    and b: "p < length (arrays st)" "out < length (outputs st)"
    and a: "assert_last_plugin (arrays st ! p) = Inr ()"
    by (auto simp add: valid_base_def split: option.splits)
  from a have ne: "arrays st ! p \<noteq> []" by (auto simp add: assert_last_plugin_Nil)
  then obtain bs l where s: "arrays st ! p = bs @ [l]"
    by (cases "arrays st ! p" rule: rev_exhaust) auto
  with a have "name l = ''rollup-plugin-license''"
    by (simp add: assert_last_plugin_snoc split: if_splits)
  with po b s show thesis by (rule that)
qed

lemma suffixes_distinct:
  "distinct [Some (f @ ''.js''), Some (f @ ''.min.js''), Some (f @ ''.debug.min.js'')]"
proof -
  have "length (f @ ''.js'') \<noteq> length (f @ ''.min.js'')"
       "length (f @ ''.js'') \<noteq> length (f @ ''.debug.min.js'')"
       "length (f @ ''.min.js'') \<noteq> length (f @ ''.debug.min.js'')"
    by simp_all
  then show ?thesis by fastforce
qed

lemma less_3_cases: "(i::nat) < 3 \<Longrightarrow> i = 0 \<or> i = 1 \<or> i = 2"
  by arith

lemma example_valid: "valid_base example_store example_base"
  by (simp add: valid_base_def example_base_def example_store_def example_license_def
      license_def assert_last_plugin_def getLastElement_def js_index_def)

text \<open>
  C1. For a base config whose plugin array is \<open>[r, m, l]\<close> with \<open>l\<close> the license
  plugin, \<open>makeBundleConfigVariants\<close> returns three configs. The one written to
  \<^verbatim>\<open>.js\<close> has the plugins \<open>[r, m, debug(true), l]\<close>, the one written to
  \<^verbatim>\<open>.min.js\<close> has \<open>[r, m, debug(false), terser, l]\<close> and the one written to
  \<^verbatim>\<open>.debug.min.js\<close> has \<open>[r, m, debug(true), terser, l]\<close>: the variant plugins sit
  immediately before the license plugin, and each variant's array stands in place of the
  base array rather than after it.
\<close>

theorem variants_scenario:
  assumes "plugins baseConfig = Some p" and "output_obj baseConfig = Some out"
    and "p < length (arrays st)" and "out < length (outputs st)"
    and "arrays st ! p = [r, m, l]" and "name l = ''rollup-plugin-license''"
  shows "variant_plugins (makeBundleConfigVariants st baseConfig) =
           [Some [r, m, makeIsDebugBuildPlugin True, l],
            Some [r, m, makeIsDebugBuildPlugin False, terserPlugin, l],
            Some [r, m, makeIsDebugBuildPlugin True, terserPlugin, l]]
       \<and> variant_files (makeBundleConfigVariants st baseConfig) =
           [Some (template (file_name (outputs st ! out)) @ ''.js''),
            Some (template (file_name (outputs st ! out)) @ ''.min.js''),
            Some (template (file_name (outputs st ! out)) @ ''.debug.min.js'')]"
proof -
  have s: "arrays st ! p = [r, m] @ [l]" using assms(5) by simp
  show ?thesis
    by (simp add: makeBundleConfigVariants_eq [OF assms(1-4) s assms(6)]
        variant_plugins_def variant_files_def plugins_of_def file_of_def output_of_def
        nth_append variant_output_def mergeOutput_def merge_field_def empty_output_def)
qed

text \<open>The same on the example base config.\<close>

theorem variants_scenario_witness:
  "plugins example_base = Some 0 \<and> output_obj example_base = Some 0 \<and>
   0 < length (arrays example_store) \<and> 0 < length (outputs example_store) \<and>
   arrays example_store ! 0 = [resolve, example_mark, example_license] \<and>
   name example_license = ''rollup-plugin-license'' \<and>
   variant_plugins (makeBundleConfigVariants example_store example_base) =
     [Some [resolve, example_mark, makeIsDebugBuildPlugin True, example_license],
      Some [resolve, example_mark, makeIsDebugBuildPlugin False, terserPlugin, example_license],
      Some [resolve, example_mark, makeIsDebugBuildPlugin True, terserPlugin, example_license]] \<and>
   variant_files (makeBundleConfigVariants example_store example_base) =
     [Some ''build/bundle.js'', Some ''build/bundle.min.js'', Some ''build/bundle.debug.min.js'']"
  using variants_scenario [of example_base 0 0 example_store resolve example_mark example_license]
  by (simp add: example_base_def example_store_def example_license_def license_def
      template_def empty_output_def)

text \<open>
  C2, as the code has it. For every valid base config \<open>makeBundleConfigVariants\<close> returns
  exactly three configs; their output files are the base file name followed by
  \<^verbatim>\<open>.js\<close>, \<^verbatim>\<open>.min.js\<close> and \<^verbatim>\<open>.debug.min.js\<close>, three distinct names; and they come
  in this order: not minified with debugging kept, minified with debugging stripped,
  minified with debugging kept.
\<close>

theorem variants_three_in_order:
  assumes "valid_base st baseConfig"
    and "plugins_of st baseConfig = Some ps"
    and "file_of st baseConfig = f"
  shows "length (variant_files (makeBundleConfigVariants st baseConfig)) = 3
       \<and> variant_files (makeBundleConfigVariants st baseConfig) =
           [Some (template f @ ''.js''),
            Some (template f @ ''.min.js''),
            Some (template f @ ''.debug.min.js'')]
       \<and> distinct (variant_files (makeBundleConfigVariants st baseConfig))
       \<and> variant_plugins (makeBundleConfigVariants st baseConfig) =
           [Some (butlast ps @ [makeIsDebugBuildPlugin True, last ps]),
            Some (butlast ps @ [makeIsDebugBuildPlugin False, terserPlugin, last ps]),
            Some (butlast ps @ [makeIsDebugBuildPlugin True, terserPlugin, last ps])]"
proof -
  from assms(1) obtain p out bs l where h: "plugins baseConfig = Some p"
    "output_obj baseConfig = Some out" "p < length (arrays st)" "out < length (outputs st)"
    "arrays st ! p = bs @ [l]" "name l = ''rollup-plugin-license''"
    by (rule valid_baseD)
  have ps: "ps = bs @ [l]" using assms(2) h by (simp add: plugins_of_def)
  have f: "f = file_name (outputs st ! out)"
    using assms(3) h by (simp add: file_of_def output_of_def)
  have files: "variant_files (makeBundleConfigVariants st baseConfig) =
           [Some (template f @ ''.js''),
            Some (template f @ ''.min.js''),
            Some (template f @ ''.debug.min.js'')]"
    by (simp add: makeBundleConfigVariants_eq [OF h] f
        variant_files_def file_of_def output_of_def
        nth_append variant_output_def mergeOutput_def merge_field_def empty_output_def)
  have plugs: "variant_plugins (makeBundleConfigVariants st baseConfig) =
           [Some (butlast ps @ [makeIsDebugBuildPlugin True, last ps]),
            Some (butlast ps @ [makeIsDebugBuildPlugin False, terserPlugin, last ps]),
            Some (butlast ps @ [makeIsDebugBuildPlugin True, terserPlugin, last ps])]"
    by (simp add: makeBundleConfigVariants_eq [OF h] ps
        variant_plugins_def plugins_of_def nth_append)
  show ?thesis
    unfolding files plugs using suffixes_distinct [of "template f"] by simp
qed

text \<open>The same on the example base config.\<close>

theorem variants_three_in_order_witness:
  "valid_base example_store example_base \<and>
   plugins_of example_store example_base = Some [resolve, example_mark, example_license] \<and>
   file_of example_store example_base = Some ''build/bundle'' \<and>
   variant_files (makeBundleConfigVariants example_store example_base) =
     [Some ''build/bundle.js'', Some ''build/bundle.min.js'', Some ''build/bundle.debug.min.js''] \<and>
   variant_plugins (makeBundleConfigVariants example_store example_base) =
     [Some [resolve, example_mark, makeIsDebugBuildPlugin True, example_license],
      Some [resolve, example_mark, makeIsDebugBuildPlugin False, terserPlugin, example_license],
      Some [resolve, example_mark, makeIsDebugBuildPlugin True, terserPlugin, example_license]]"
proof -
  note v = example_valid
  have p: "plugins_of example_store example_base = Some [resolve, example_mark, example_license]"
    by (simp add: plugins_of_def example_base_def example_store_def)
  have f: "file_of example_store example_base = Some ''build/bundle''"
    by (simp add: file_of_def output_of_def example_base_def example_store_def empty_output_def)
  show ?thesis
    using variants_three_in_order [OF v p f] v p f by (simp add: template_def)
qed

text \<open>
  C2 as written has the minified config that keeps debugging second and the one that
  strips it third. On the example base config the returned plugin arrays are not in
  that order.
\<close>

theorem variants_order_counterexample:
  "variant_plugins (makeBundleConfigVariants example_store example_base) \<noteq>
     [Some [resolve, example_mark, makeIsDebugBuildPlugin True, example_license],
      Some [resolve, example_mark, makeIsDebugBuildPlugin True, terserPlugin, example_license],
      Some [resolve, example_mark, makeIsDebugBuildPlugin False, terserPlugin, example_license]]"
proof -
  have "variant_plugins (makeBundleConfigVariants example_store example_base) =
     [Some [resolve, example_mark, makeIsDebugBuildPlugin True, example_license],
      Some [resolve, example_mark, makeIsDebugBuildPlugin False, terserPlugin, example_license],
      Some [resolve, example_mark, makeIsDebugBuildPlugin True, terserPlugin, example_license]]"
    using makeBundleConfigVariants_eq
          [of example_base 0 0 example_store "[resolve, example_mark]" example_license]
    by (simp add: example_base_def example_store_def example_license_def license_def
        variant_plugins_def plugins_of_def)
  moreover have "makeIsDebugBuildPlugin False \<noteq> makeIsDebugBuildPlugin True"
    by (simp add: makeIsDebugBuildPlugin_def replace_def)
  ultimately show ?thesis by simp
qed

text \<open>
  C9. For every valid base config the three configs \<open>makeBundleConfigVariants\<close> returns
  have the \<open>input\<close> of the base. Their plugin arrays are three different cells, all
  allocated by the call, and so are their output objects; the cells the store had before
  the call, the base's among them, are unchanged. So overwriting the plugin array or the
  output object of one variant changes neither those of another variant nor those of
  the base.
\<close>

theorem variants_independent:
  assumes "valid_base st baseConfig"
  shows "\<exists>st' cs. makeBundleConfigVariants st baseConfig = Inr (st', cs) \<and> length cs = 3
       \<and> (\<forall>c \<in> set cs. input c = input baseConfig)
       \<and> (\<exists>rs. map plugins cs = map Some rs \<and> distinct rs
              \<and> (\<forall>r \<in> set rs. length (arrays st) \<le> r \<and> r < length (arrays st')))
       \<and> (\<exists>os. map output_obj cs = map Some os \<and> distinct os
              \<and> (\<forall>r \<in> set os. length (outputs st) \<le> r \<and> r < length (outputs st')))
       \<and> take (length (arrays st)) (arrays st') = arrays st
       \<and> take (length (outputs st)) (outputs st') = outputs st
       \<and> (\<forall>i < 3. \<forall>j < 3. \<forall>xs out. i \<noteq> j \<longrightarrow>
              plugins_of (set_plugins st' (cs ! i) xs) (cs ! j) = plugins_of st' (cs ! j)
            \<and> output_of (set_output st' (cs ! i) out) (cs ! j) = output_of st' (cs ! j))
       \<and> (\<forall>i < 3. \<forall>xs out.
              plugins_of (set_plugins st' (cs ! i) xs) baseConfig = plugins_of st baseConfig
            \<and> output_of (set_output st' (cs ! i) out) baseConfig = output_of st baseConfig)"
proof -
  from assms obtain p out bs l where h: "plugins baseConfig = Some p"
    "output_obj baseConfig = Some out" "p < length (arrays st)" "out < length (outputs st)"
    "arrays st ! p = bs @ [l]" "name l = ''rollup-plugin-license''"
    by (rule valid_baseD)
  let ?n = "length (arrays st)" and ?m = "length (outputs st)"
  note e = makeBundleConfigVariants_eq [OF h]
  obtain st' cs where r: "makeBundleConfigVariants st baseConfig = Inr (st', cs)"
    using e by simp
  from r e have cs: "cs =
      [baseConfig\<lparr>output_obj := Some (?m + 3), plugins := Some ?n\<rparr>,
       baseConfig\<lparr>output_obj := Some (?m + 4), plugins := Some (?n + 1)\<rparr>,
       baseConfig\<lparr>output_obj := Some (?m + 5), plugins := Some (?n + 2)\<rparr>]"
    by simp
  from r e have la: "length (arrays st') = ?n + 3" and lo: "length (outputs st') = ?m + 6"
    and ta: "take ?n (arrays st') = arrays st" and to: "take ?m (outputs st') = outputs st"
    by auto
  have pa: "arrays st' ! p = arrays st ! p"
    using ta h(3) by (metis nth_take)
  have po: "outputs st' ! out = outputs st ! out"
    using to h(4) by (metis nth_take)
  have c1: "length cs = 3" and c2: "\<forall>c \<in> set cs. input c = input baseConfig"
    by (simp_all add: cs)
  have c3: "map plugins cs = map Some [?n, ?n + 1, ?n + 2]"
    and c4: "map output_obj cs = map Some [?m + 3, ?m + 4, ?m + 5]"
    by (simp_all add: cs)
  have c5: "\<forall>i < 3. \<forall>j < 3. \<forall>xs out. i \<noteq> j \<longrightarrow>
              plugins_of (set_plugins st' (cs ! i) xs) (cs ! j) = plugins_of st' (cs ! j)
            \<and> output_of (set_output st' (cs ! i) out) (cs ! j) = output_of st' (cs ! j)"
    by (auto dest!: less_3_cases
        simp add: cs plugins_of_def output_of_def set_plugins_def set_output_def)
  have c6: "\<forall>i < 3. \<forall>xs out'.
              plugins_of (set_plugins st' (cs ! i) xs) baseConfig = plugins_of st baseConfig
            \<and> output_of (set_output st' (cs ! i) out') baseConfig = output_of st baseConfig"
    using h(1-4) pa po
    by (auto dest!: less_3_cases
        simp add: cs plugins_of_def output_of_def set_plugins_def set_output_def)
  have d3: "distinct [?n, ?n + 1, ?n + 2] \<and>
            (\<forall>r \<in> set [?n, ?n + 1, ?n + 2]. ?n \<le> r \<and> r < length (arrays st'))"
    by (simp add: la)
  have d4: "distinct [?m + 3, ?m + 4, ?m + 5] \<and>
            (\<forall>r \<in> set [?m + 3, ?m + 4, ?m + 5]. ?m \<le> r \<and> r < length (outputs st'))"
    by (simp add: lo)
  from r c1 c2 c3 c4 c5 c6 d3 d4 ta to show ?thesis by blast
qed

text \<open>The same on the example base config.\<close>

theorem variants_independent_witness:
  "valid_base example_store example_base \<and>
   (\<exists>st' cs. makeBundleConfigVariants example_store example_base = Inr (st', cs) \<and>
      length cs = 3 \<and> map input cs = [Some ''src/index.ts'', Some ''src/index.ts'', Some ''src/index.ts''] \<and>
      take 1 (arrays st') = [[resolve, example_mark, example_license]])"
proof -
  note v = example_valid
  from variants_independent [OF v] obtain st' cs where
    r: "makeBundleConfigVariants example_store example_base = Inr (st', cs)"
    and l: "length cs = 3" and i: "\<forall>c \<in> set cs. input c = input example_base"
    and t: "take (length (arrays example_store)) (arrays st') = arrays example_store"
    by blast
  from l obtain a b c where cs: "cs = [a, b, c]"
    by (cases cs; simp; rename_tac x xs; case_tac xs; simp; rename_tac y ys; case_tac ys; simp)
  from i cs have m: "map input cs = [Some ''src/index.ts'', Some ''src/index.ts'', Some ''src/index.ts'']"
    by (simp add: example_base_def)
  from t have a: "take 1 (arrays st') = [[resolve, example_mark, example_license]]"
    by (simp add: example_store_def)
  show ?thesis
    by (intro conjI exI) (rule v r l m a)+
qed


section \<open>The base bundle config\<close>

text \<open>
  \<open>makeBaseBundleConfig\<close> fails when the git command fails, and when \<open>jsVersion\<close> is
  not given: \<open>toLowerCase\<close> is then called on \<^verbatim>\<open>undefined\<close>.
\<close>

lemma makeBaseBundleConfig_git_fails:
  "makeBaseBundleConfig (Inl e) st input_path isAddOn jsVersion licenseTitle outputFileBase = Inl e"
  by (simp add: makeBaseBundleConfig_def makeLicensePlugin_def)

lemma makeBaseBundleConfig_no_jsVersion:
  "makeBaseBundleConfig (Inr out) st input_path isAddOn None licenseTitle outputFileBase =
     Inl TypeError"
  by (simp add: makeBaseBundleConfig_def makeLicensePlugin_def Let_def split: prod.splits)

text \<open>
  C3, as the code has it. Whenever the git command succeeds and \<open>jsVersion\<close> is given,
  \<open>makeBaseBundleConfig\<close> returns a config whose plugin array is, in this order: the
  TypeScript plugin for the target (ES5 when \<open>jsVersion\<close> is \<^verbatim>\<open>es5\<close> in any letter
  case, ES6 otherwise), then the browser-marker plugin, then the module-resolution
  plugin, then the license plugin last.
\<close>

theorem base_bundle_plugins:
  assumes "git = Inr out" and "jsVersion = Some v"
  shows "config_plugins
           (makeBaseBundleConfig git st input_path isAddOn jsVersion licenseTitle outputFileBase) =
         Some [if toLowerCase v = ''es5'' then typescript ''tsconfig.esm.json'' ''es5''
               else typescript ''tsconfig.esm.json'' ''es6'',
               replace True [(''__SENTRY_BROWSER_BUNDLE__'', True)],
               nodeResolvePlugin,
               license (''/*! <%= data.title %> <%= pkg.version %> ('' @ trim out @
                        '') | https://github.com/getsentry/sentry-javascript */'') licenseTitle]"
  using assms
  by (simp add: makeBaseBundleConfig_def makeLicensePlugin_def Let_def alloc_output_def
      alloc_array_def deepMerge_def empty_config_def config_plugins_def plugins_of_def
      nth_append split: prod.splits)

text \<open>The same for a stand-alone ES5 bundle at revision \<open>abc1234\<close>.\<close>

theorem base_bundle_plugins_witness:
  "config_plugins
     (makeBaseBundleConfig (Inr ''abc1234'') \<lparr>arrays = [], outputs = []\<rparr> (Some ''src/index.ts'')
        False (Some ''es5'') (Some ''Sentry'') (Some ''bundle'')) =
   Some [typescript ''tsconfig.esm.json'' ''es5'',
         replace True [(''__SENTRY_BROWSER_BUNDLE__'', True)],
         nodeResolvePlugin,
         license ''/*! <%= data.title %> <%= pkg.version %> (abc1234) | https://github.com/getsentry/sentry-javascript */''
           (Some ''Sentry'')]"
  using base_bundle_plugins [of "Inr ''abc1234''" "''abc1234''" "Some ''es5''" "''es5''"
      "\<lparr>arrays = [], outputs = []\<rparr>" "Some ''src/index.ts''" False "Some ''Sentry''" "Some ''bundle''"]
  by (simp add: toLowerCase_def trim_def isWhiteSpace_def)

text \<open>
  C3 as written has the module-resolution plugin before the browser-marker plugin. The
  plugin array of the same bundle is not in that order.
\<close>

theorem base_bundle_plugins_counterexample:
  "config_plugins
     (makeBaseBundleConfig (Inr ''abc1234'') \<lparr>arrays = [], outputs = []\<rparr> (Some ''src/index.ts'')
        False (Some ''es5'') (Some ''Sentry'') (Some ''bundle'')) \<noteq>
   Some [typescript ''tsconfig.esm.json'' ''es5'',
         nodeResolvePlugin,
         replace True [(''__SENTRY_BROWSER_BUNDLE__'', True)],
         license ''/*! <%= data.title %> <%= pkg.version %> (abc1234) | https://github.com/getsentry/sentry-javascript */''
           (Some ''Sentry'')]"
  by (simp add: makeBaseBundleConfig_def makeLicensePlugin_def Let_def alloc_output_def
      alloc_array_def deepMerge_def empty_config_def config_plugins_def plugins_of_def
      defaultArrayMerge_def nodeResolvePlugin_def resolve_def replace_def typescript_def
      license_def toLowerCase_def trim_def isWhiteSpace_def)


section \<open>The package config\<close>

text \<open>
  C8. For every manifest and every list of built-in modules, the \<open>external\<close> array of the
  config \<open>makeBaseNPMConfig\<close> returns is the built-in module names followed by the keys
  of \<open>dependencies\<close>, of \<open>devDependencies\<close> and of \<open>peerDependencies\<close>; as a set it is
  the union of the four. For the manifest with dependency \<open>a\<close>, development dependency
  \<open>b\<close> and no peer dependency, and the built-ins \<open>fs\<close> and \<open>path\<close>, the set is
  \<open>{fs, path, a, b}\<close>.
\<close>

theorem npm_external:
  "external (snd (makeBaseNPMConfig builtinModules packageDotJSON st options)) =
     builtinModules @ object_keys (dependencies packageDotJSON) @
     object_keys (devDependencies packageDotJSON) @ object_keys (peerDependencies packageDotJSON)
 \<and> set (external (snd (makeBaseNPMConfig builtinModules packageDotJSON st options))) =
     set builtinModules \<union> set (object_keys (dependencies packageDotJSON)) \<union>
     set (object_keys (devDependencies packageDotJSON)) \<union>
     set (object_keys (peerDependencies packageDotJSON))
 \<and> set (external (snd (makeBaseNPMConfig [''fs'', ''path'']
        \<lparr>dependencies = Some [(''a'', ''1'')], devDependencies = Some [(''b'', ''2'')],
         peerDependencies = Some []\<rparr> st options))) = {''fs'', ''path'', ''a'', ''b''}"
  by (auto simp add: makeBaseNPMConfig_def Let_def alloc_output_def alloc_array_def
      object_keys_def split: prod.splits)

text \<open>
  C10. \<open>makeBaseNPMConfig\<close> returns a config when its options argument is omitted. With
  no entrypoint given, whether the options are omitted or not, the \<open>input\<close> of the config
  is \<^verbatim>\<open>src/index.ts\<close>. The \<open>interop\<close> setting of its output is \<^verbatim>\<open>auto\<close> when
  \<open>esModuleInterop\<close> is truthy and \<^verbatim>\<open>esModule\<close> otherwise, so \<^verbatim>\<open>esModule\<close> when the
  options are omitted.
\<close>

theorem npm_defaults:
  "input (snd (makeBaseNPMConfig builtinModules packageDotJSON st None)) = Some ''src/index.ts''
 \<and> npm_interop (makeBaseNPMConfig builtinModules packageDotJSON st None) = Some ''esModule''
 \<and> input (snd (makeBaseNPMConfig builtinModules packageDotJSON st
                  (Some (opts\<lparr>entrypoint := None\<rparr>)))) = Some ''src/index.ts''
 \<and> npm_interop (makeBaseNPMConfig builtinModules packageDotJSON st (Some opts)) =
     Some (if truthy (esModuleInterop opts) then ''auto'' else ''esModule'')"
  by (simp add: makeBaseNPMConfig_def Let_def alloc_output_def alloc_array_def
      npm_interop_def output_of_def truthy_string_def empty_output_def nth_append
      split: prod.splits)

end
